theory Spec2Isabelle
  imports Main
begin

section \<open>JavaScript values\<close>

text \<open>
  Handler results, request bodies and entities are plain JavaScript values. An object is
  the list of its own enumerable properties in insertion order. Numbers are kept as
  integers: none of the code below computes with them, it only asks for their type and
  truthiness. A string is the sequence of its code units, each below 256 (the Latin-1
  range of Unicode); text with other characters is not represented.
\<close>

datatype jsval =
    JUndefined
  | JNull
  | JBool bool
  | JNum int
  | JStr string
  | JArr "jsval list"
  | JObj "(string \<times> jsval) list"

type_synonym obj = "(string \<times> jsval) list"

text \<open>\<open>o.k\<close>: the value of property \<open>k\<close>, \<open>undefined\<close> when the object has none.\<close>

definition getprop :: "obj \<Rightarrow> string \<Rightarrow> jsval" where
  "getprop fs k = (case map_of fs k of None \<Rightarrow> JUndefined | Some v \<Rightarrow> v)"

definition keys :: "obj \<Rightarrow> string list" where
  "keys fs = map fst fs"

text \<open>Truthiness, as \<open>if (x)\<close>, \<open>!x\<close> and \<open>x && y\<close> read a value.\<close>

fun truthy :: "jsval \<Rightarrow> bool" where
  "truthy JUndefined = False"
| "truthy JNull = False"
| "truthy (JBool b) = b"
| "truthy (JNum n) = (n \<noteq> 0)"
| "truthy (JStr s) = (s \<noteq> [])"
| "truthy (JArr xs) = True"
| "truthy (JObj fs) = True"

fun typeof :: "jsval \<Rightarrow> string" where
  "typeof JUndefined = ''undefined''"
| "typeof JNull = ''object''"
| "typeof (JBool b) = ''boolean''"
| "typeof (JNum n) = ''number''"
| "typeof (JStr s) = ''string''"
| "typeof (JArr xs) = ''object''"
| "typeof (JObj fs) = ''object''"

text \<open>
  \<open>k in data\<close>. The keys of an array are its indices and \<open>length\<close>; the two keys asked
  for below are neither. On a primitive the operator throws a TypeError; every use below
  sits behind \<open>data && typeof data === 'object'\<close>, which short-circuits first.
\<close>

fun js_in :: "string \<Rightarrow> jsval \<Rightarrow> bool" where
  "js_in k (JObj fs) = (k \<in> set (keys fs))"
| "js_in k (JArr xs) = False"
| "js_in k v = False"

section \<open>Response interceptor\<close>

text \<open>
  \<^verbatim>\<open>
  private isStandardFormat(data: any): data is Response<T> {
    return (data && typeof data === 'object' && 'success' in data && 'timestamp' in data);
  }
  \<close>
\<close>

definition isStandardFormat :: "jsval \<Rightarrow> bool" where
  "isStandardFormat data =
     (truthy data \<and> typeof data = ''object'' \<and>
      js_in ''success'' data \<and> js_in ''timestamp'' data)"

text \<open>
  The function mapped over the handler's result by \<open>ResponseInterceptor.intercept\<close>.
  \<open>now\<close> is what \<open>new Date().toISOString()\<close> returns when the result is wrapped.
  \<^verbatim>\<open>
  map((data) => {
    if (this.isStandardFormat(data)) { return data; }
    if (data === null || data === undefined) { data = null; }
    return { success: true, data, timestamp: new Date().toISOString() };
  })
  \<close>
\<close>

definition intercept :: "string \<Rightarrow> jsval \<Rightarrow> jsval" where
  "intercept now data =
     (if isStandardFormat data then data
      else
        let data' = (if data = JNull \<or> data = JUndefined then JNull else data)
        in JObj [(''success'', JBool True), (''data'', data'), (''timestamp'', JStr now)])"

section \<open>String methods\<close>

text \<open>
  \<open>String.prototype.toLowerCase\<close> and \<open>String.prototype.trim\<close> on code units below 256.
  The letters with a lower-case form are \<open>A\<close> to \<open>Z\<close> and U+00C0 to U+00DE without the
  multiplication sign U+00D7; the lower-case form is 32 code units higher. The white space
  and line terminators that \<open>trim\<close> strips from both ends are tab, line feed, vertical
  tab, form feed, carriage return, space and the no-break space U+00A0.
\<close>

definition toLowerCase_char :: "char \<Rightarrow> char" where
  "toLowerCase_char c =
     (let u = (of_char c :: nat)
      in if (0x41 \<le> u \<and> u \<le> 0x5A) \<or> (0xC0 \<le> u \<and> u \<le> 0xDE \<and> u \<noteq> 0xD7)
         then char_of (u + 0x20)
         else c)"

definition toLowerCase :: "string \<Rightarrow> string" where
  "toLowerCase s = map toLowerCase_char s"

definition isWhiteSpace :: "char \<Rightarrow> bool" where
  "isWhiteSpace c =
     (c \<in> set [CHR 0x09, CHR 0x0A, CHR 0x0B, CHR 0x0C, CHR 0x0D, CHR 0x20, CHR 0xA0])"

definition trim :: "string \<Rightarrow> string" where
  "trim s = rev (dropWhile isWhiteSpace (rev (dropWhile isWhiteSpace s)))"

section \<open>Login schema\<close>

text \<open>
  \<^verbatim>\<open>
  export const LoginSchema = z.object({
    email: z.string({ message: 'Email is required' })
      .email('Must be a valid email address')
      .min(1, 'Email cannot be empty')
      .transform((val) => val.toLowerCase().trim()),
    password: z.string({ message: 'Password is required' })
      .min(6, 'Password must be at least 6 characters')
      .max(100, 'Password is too long'),
  });
  \<close>
  A string schema first asks for a string (a missing property reads as \<open>undefined\<close> and
  is refused with the schema's own message), then runs every check in the order written
  and reports each one that fails; the transform runs only on a value that passed all of
  them. The object schema reports the issues of its properties in the order declared and
  keeps only the declared properties. The email format test belongs to the validation
  library and is the parameter \<open>isEmail\<close>. The schema is what \<open>LoginDto\<close> is made from
  (\<open>class LoginDto extends createZodDto(LoginSchema) {}\<close>); it runs where the validation
  library's own pipe is installed.
\<close>

record issue =
  path :: "string list"
  message :: string

record LoginInput =
  email :: string
  password :: string

definition email_schema :: "(string \<Rightarrow> bool) \<Rightarrow> jsval \<Rightarrow> issue list + string" where
  "email_schema isEmail v =
     (case v of
        JStr val \<Rightarrow>
          (let issues =
                 (if isEmail val then []
                  else [\<lparr>path = [''email''], message = ''Must be a valid email address''\<rparr>]) @
                 (if 1 \<le> length val then []
                  else [\<lparr>path = [''email''], message = ''Email cannot be empty''\<rparr>])
           in if issues = [] then Inr (trim (toLowerCase val)) else Inl issues)
      | _ \<Rightarrow> Inl [\<lparr>path = [''email''], message = ''Email is required''\<rparr>])"

definition password_schema :: "jsval \<Rightarrow> issue list + string" where
  "password_schema v =
     (case v of
        JStr val \<Rightarrow>
          (let issues =
                 (if 6 \<le> length val then []
                  else [\<lparr>path = [''password''],
                          message = ''Password must be at least 6 characters''\<rparr>]) @
                 (if length val \<le> 100 then []
                  else [\<lparr>path = [''password''], message = ''Password is too long''\<rparr>])
           in if issues = [] then Inr val else Inl issues)
      | _ \<Rightarrow> Inl [\<lparr>path = [''password''], message = ''Password is required''\<rparr>])"

definition issues_of :: "issue list + 'a \<Rightarrow> issue list" where
  "issues_of r = (case r of Inl issues \<Rightarrow> issues | Inr _ \<Rightarrow> [])"

definition LoginSchema :: "(string \<Rightarrow> bool) \<Rightarrow> obj \<Rightarrow> issue list + LoginInput" where
  "LoginSchema isEmail body =
     (let e = email_schema isEmail (getprop body ''email'');
          p = password_schema (getprop body ''password'')
      in case (e, p) of
           (Inr e', Inr p') \<Rightarrow> Inr \<lparr>email = e', password = p'\<rparr>
         | _ \<Rightarrow> Inl (issues_of e @ issues_of p))"

section \<open>Credential store and password hasher\<close>

text \<open>
  The world a login runs in: the rows of the \<open>users\<close> table, and the calls made so far to
  the two collaborators, oldest first. \<open>UserRepository.findByEmail\<close> is
  \<^verbatim>\<open>
  const user = await this.db.table(this.tableName).where({ email }).first();
  if (!user) { return null; }
  return new User(user);
  \<close>
  The entity class is the parameter \<open>User\<close> (its constructor, from a row to the entity's
  properties); \<open>bcrypt.compare\<close> is the parameter \<open>compare\<close>. Both collaborators answer:
  a database or a hasher that rejects is not part of this model.
\<close>

datatype call = FindByEmail string | BcryptCompare string jsval

record world =
  users :: "obj list"
  calls :: "call list"

text \<open>The query \<open>.where({ email }).first()\<close>: the first row whose \<open>email\<close> column is \<open>e\<close>.\<close>

definition where_email_first :: "string \<Rightarrow> obj list \<Rightarrow> obj option" where
  "where_email_first e rows = find (\<lambda>r. getprop r ''email'' = JStr e) rows"

definition findByEmail :: "(obj \<Rightarrow> obj) \<Rightarrow> string \<Rightarrow> world \<Rightarrow> obj option \<times> world" where
  "findByEmail User e w =
     (let row = where_email_first e (users w);
          w' = w\<lparr>calls := calls w @ [FindByEmail e]\<rparr>
      in case row of
           None \<Rightarrow> (None, w')
         | Some r \<Rightarrow> (Some (User r), w'))"

definition bcrypt_compare ::
  "(string \<Rightarrow> jsval \<Rightarrow> bool) \<Rightarrow> string \<Rightarrow> jsval \<Rightarrow> world \<Rightarrow> bool \<times> world" where
  "bcrypt_compare compare plain hash w =
     (compare plain hash, w\<lparr>calls := calls w @ [BcryptCompare plain hash]\<rparr>)"

section \<open>Login use case\<close>

record LoginOutput =
  user :: obj
  token :: "string option"

datatype exception =
    UnauthorizedException string
  | I18nValidationException "string list"

text \<open>The rest pattern \<open>{ k: _, ...rest } = o\<close>: every own property of \<open>o\<close> but \<open>k\<close>.\<close>

definition omit :: "string \<Rightarrow> obj \<Rightarrow> obj" where
  "omit k fs = filter (\<lambda>f. fst f \<noteq> k) fs"

text \<open>
  \<^verbatim>\<open>
  async execute(input: LoginInput): Promise<LoginOutput> {
    const user = await this.userRepository.findByEmail(input.email);
    if (!user) { throw new UnauthorizedException('Invalid credentials'); }
    const isPasswordValid = await bcrypt.compare(input.password, user.password);
    if (!isPasswordValid) { throw new UnauthorizedException('Invalid credentials'); }
    const { password: _, ...userWithoutPassword } = user;
    return { user: userWithoutPassword as User };
  }
  \<close>
\<close>

definition execute ::
  "(obj \<Rightarrow> obj) \<Rightarrow> (string \<Rightarrow> jsval \<Rightarrow> bool) \<Rightarrow> LoginInput \<Rightarrow> world
     \<Rightarrow> (exception + LoginOutput) \<times> world" where
  "execute User compare input w =
     (case findByEmail User (email input) w of
        (None, w1) \<Rightarrow> (Inl (UnauthorizedException ''Invalid credentials''), w1)
      | (Some u, w1) \<Rightarrow>
          (case bcrypt_compare compare (password input) (getprop u ''password'') w1 of
             (isPasswordValid, w2) \<Rightarrow>
               if \<not> isPasswordValid
               then (Inl (UnauthorizedException ''Invalid credentials''), w2)
               else (Inr \<lparr>user = omit ''password'' u, token = None\<rparr>, w2)))"

section \<open>Controller\<close>

text \<open>
  \<^verbatim>\<open>
  async login(@Body() loginDto: LoginDto): Promise<AuthResponseDto> {
    const result = await this.loginUseCase.execute({
      email: loginDto.email, password: loginDto.password });
    return {
      user: { id: result.user.id, email: result.user.email, name: result.user.name,
              createdAt: result.user.createdAt, updatedAt: result.user.updatedAt },
      token: result.token,
      message: 'Login successful',
    };
  }
  \<close>
\<close>

definition login ::
  "(obj \<Rightarrow> obj) \<Rightarrow> (string \<Rightarrow> jsval \<Rightarrow> bool) \<Rightarrow> LoginInput \<Rightarrow> world
     \<Rightarrow> (exception + jsval) \<times> world" where
  "login User compare loginDto w =
     (case execute User compare \<lparr>email = email loginDto, password = password loginDto\<rparr> w of
        (Inl e, w') \<Rightarrow> (Inl e, w')
      | (Inr result, w') \<Rightarrow>
          (Inr (JObj
             [(''user'', JObj
                 [(''id'', getprop (user result) ''id''),
                  (''email'', getprop (user result) ''email''),
                  (''name'', getprop (user result) ''name''),
                  (''createdAt'', getprop (user result) ''createdAt''),
                  (''updatedAt'', getprop (user result) ''updatedAt'')]),
              (''token'', (case token result of None \<Rightarrow> JUndefined | Some t \<Rightarrow> JStr t)),
              (''message'', JStr ''Login successful'')]), w'))"

section \<open>Validation pipe\<close>

text \<open>
  The application installs one validation pipe, for every route:
  \<^verbatim>\<open>
  app.useGlobalPipes(
    new I18nValidationPipe({
      transform: true, whitelist: true, forbidNonWhitelisted: true,
      transformOptions: { enableImplicitConversion: true },
    }),
  );
  \<close>
  Its white list is made of the properties of the DTO class that carry a validation
  decorator. With \<open>forbidNonWhitelisted\<close>, a body with a property outside the white list is
  refused: the pipe throws an \<open>I18nValidationException\<close> that names each such property, in
  the order of the body, the request is answered 400 and the handler is not called.
  \<open>LoginDto\<close> declares no decorated property. No pipe that runs \<open>LoginSchema\<close> is installed
  anywhere in the application.
\<close>

definition forbidNonWhitelisted :: "string list \<Rightarrow> obj \<Rightarrow> exception option" where
  "forbidNonWhitelisted decorated body =
     (case filter (\<lambda>k. k \<notin> set decorated) (keys body) of
        [] \<Rightarrow> None
      | ps \<Rightarrow> Some (I18nValidationException ps))"

definition LoginDto_decorated :: "string list" where
  "LoginDto_decorated = []"

section \<open>Seed data\<close>

text \<open>
  The three users of the seed script, all with the hash of \<open>password123\<close>, as rows of
  the \<open>users\<close> table with the columns of the migration. The script leaves \<open>id\<close> to the
  database and takes both timestamps from its clock; the values below are examples. The
  hash function, the comparison, the entity constructor and the email test of the
  examples are stand-ins: a hash that is matched by exactly its own plain text, an entity
  made from a row the way \<open>UserRepository.create\<close> makes one
  (\<open>new User({ id: user.id, ..., createdAt: user.created_at, updatedAt: user.updated_at })\<close>),
  and an email test that asks for an \<open>@\<close>.
\<close>

definition hash_example :: "string \<Rightarrow> string" where
  "hash_example plain = ''$2b$10$'' @ plain"

definition compare_example :: "string \<Rightarrow> jsval \<Rightarrow> bool" where
  "compare_example plain hash = (hash = JStr (hash_example plain))"

definition User_example :: "obj \<Rightarrow> obj" where
  "User_example row =
     [(''id'', getprop row ''id''), (''email'', getprop row ''email''),
      (''password'', getprop row ''password''), (''name'', getprop row ''name''),
      (''createdAt'', getprop row ''created_at''), (''updatedAt'', getprop row ''updated_at'')]"

definition isEmail_example :: "string \<Rightarrow> bool" where
  "isEmail_example s = (CHR ''@'' \<in> set s)"

definition seed_row :: "string \<Rightarrow> string \<Rightarrow> string \<Rightarrow> obj" where
  "seed_row i e n =
     [(''id'', JStr i), (''email'', JStr e), (''password'', JStr (hash_example ''password123'')),
      (''name'', JStr n), (''created_at'', JStr ''2024-01-01T00:00:00.000Z''),
      (''updated_at'', JStr ''2024-01-01T00:00:00.000Z'')]"

definition seed :: world where
  "seed =
     \<lparr>users =
        [seed_row ''1'' ''admin@example.com'' ''Admin User'',
         seed_row ''2'' ''user@example.com'' ''Test User'',
         seed_row ''3'' ''demo@example.com'' ''Demo User''],
      calls = []\<rparr>"

section \<open>Properties of the response interceptor\<close>

lemma isStandardFormat_JObj:
  "isStandardFormat (JObj fs) = (''success'' \<in> set (keys fs) \<and> ''timestamp'' \<in> set (keys fs))"
  by (simp add: isStandardFormat_def)

lemma isStandardFormat_cases:
  "isStandardFormat d = (\<exists>fs. d = JObj fs \<and> ''success'' \<in> set (keys fs) \<and> ''timestamp'' \<in> set (keys fs))"
  by (cases d) (simp_all add: isStandardFormat_def)

lemma isStandardFormat_envelope:
  "isStandardFormat (JObj [(''success'', s), (''data'', d), (''timestamp'', t)])"
  by (simp add: isStandardFormat_JObj keys_def)

text \<open>
  C8. A \<open>null\<close> or absent (\<open>undefined\<close>) handler result leaves the interceptor as an
  envelope that has a \<open>data\<close> property, and the property's value is \<open>null\<close>.
\<close>

theorem intercept_null_payload:
  "intercept now JNull = JObj [(''success'', JBool True), (''data'', JNull), (''timestamp'', JStr now)]
   \<and> intercept now JUndefined = JObj [(''success'', JBool True), (''data'', JNull), (''timestamp'', JStr now)]
   \<and> js_in ''data'' (intercept now JNull) \<and> js_in ''data'' (intercept now JUndefined)"
  by (simp add: intercept_def isStandardFormat_def keys_def)

lemma intercept_standard: "isStandardFormat data \<Longrightarrow> intercept now data = data"
  by (simp add: intercept_def)

lemma intercept_wrap:
  "\<not> isStandardFormat data \<Longrightarrow>
   intercept now data =
     JObj [(''success'', JBool True), (''data'', if data = JUndefined then JNull else data),
           (''timestamp'', JStr now)]"
  by (auto simp: intercept_def)

lemma isStandardFormat_intercept: "isStandardFormat (intercept now data)"
  by (cases "isStandardFormat data")
     (simp_all add: intercept_standard intercept_wrap isStandardFormat_envelope)

text \<open>
  C4. An object that has both a \<open>success\<close> and a \<open>timestamp\<close> property passes through the
  interceptor unchanged. Every other result is wrapped into
  \<open>{ success: true, data, timestamp }\<close>, where \<open>data\<close> is the result itself (\<open>null\<close> for an
  absent one) and \<open>timestamp\<close> the time of wrapping. What the interceptor returns it
  returns unchanged when applied again, so nothing is wrapped twice.
\<close>

theorem intercept_idempotent:
  "(''success'' \<in> set (keys fs) \<and> ''timestamp'' \<in> set (keys fs) \<longrightarrow>
      intercept now (JObj fs) = JObj fs)
   \<and> intercept now' (intercept now data) = intercept now data
   \<and> ((\<forall>fs'. data = JObj fs' \<longrightarrow>
           \<not> (''success'' \<in> set (keys fs') \<and> ''timestamp'' \<in> set (keys fs'))) \<longrightarrow>
        intercept now data =
          JObj [(''success'', JBool True),
                (''data'', if data = JUndefined then JNull else data),
                (''timestamp'', JStr now)])"
proof (intro conjI impI)
  assume "''success'' \<in> set (keys fs) \<and> ''timestamp'' \<in> set (keys fs)"
  then show "intercept now (JObj fs) = JObj fs"
    by (simp add: intercept_standard isStandardFormat_JObj)
next
  show "intercept now' (intercept now data) = intercept now data"
    by (rule intercept_standard) (rule isStandardFormat_intercept)
next
  assume "\<forall>fs'. data = JObj fs' \<longrightarrow>
           \<not> (''success'' \<in> set (keys fs') \<and> ''timestamp'' \<in> set (keys fs'))"
  then have "\<not> isStandardFormat data"
    by (auto simp: isStandardFormat_cases)
  then show "intercept now data =
          JObj [(''success'', JBool True),
                (''data'', if data = JUndefined then JNull else data),
                (''timestamp'', JStr now)]"
    by (rule intercept_wrap)
qed

theorem intercept_idempotent_witness:
  "''success'' \<in> set (keys [(''success'', JBool False), (''message'', JStr ''no''), (''timestamp'', JStr ''2024-01-01T00:00:00.000Z'')])
   \<and> ''timestamp'' \<in> set (keys [(''success'', JBool False), (''message'', JStr ''no''), (''timestamp'', JStr ''2024-01-01T00:00:00.000Z'')])
   \<and> intercept ''2024-06-01T12:00:00.000Z''
        (JObj [(''success'', JBool False), (''message'', JStr ''no''), (''timestamp'', JStr ''2024-01-01T00:00:00.000Z'')])
      = JObj [(''success'', JBool False), (''message'', JStr ''no''), (''timestamp'', JStr ''2024-01-01T00:00:00.000Z'')]
   \<and> intercept ''2024-06-01T12:00:01.000Z'' (intercept ''2024-06-01T12:00:00.000Z'' (JObj [(''id'', JNum 7)]))
      = JObj [(''success'', JBool True), (''data'', JObj [(''id'', JNum 7)]),
              (''timestamp'', JStr ''2024-06-01T12:00:00.000Z'')]
   \<and> ''success'' \<notin> set (keys [(''id'', JNum 7)])"
proof -
  let ?env = "[(''success'', JBool False), (''message'', JStr ''no''), (''timestamp'', JStr ''2024-01-01T00:00:00.000Z'')]"
  let ?d = "JObj [(''id'', JNum 7)]"
  have k: "''success'' \<in> set (keys ?env) \<and> ''timestamp'' \<in> set (keys ?env)"
    by (simp add: keys_def)
  have n: "\<forall>fs'. ?d = JObj fs' \<longrightarrow>
           \<not> (''success'' \<in> set (keys fs') \<and> ''timestamp'' \<in> set (keys fs'))"
    by (simp add: keys_def)
  note h = intercept_idempotent [of ?env "''2024-06-01T12:00:00.000Z''"
      "''2024-06-01T12:00:01.000Z''" ?d]
  from h k have 1: "intercept ''2024-06-01T12:00:00.000Z'' (JObj ?env) = JObj ?env"
    by blast
  from h n have 3: "intercept ''2024-06-01T12:00:00.000Z'' ?d =
      JObj [(''success'', JBool True), (''data'', ?d), (''timestamp'', JStr ''2024-06-01T12:00:00.000Z'')]"
    by simp
  from h have 2: "intercept ''2024-06-01T12:00:01.000Z'' (intercept ''2024-06-01T12:00:00.000Z'' ?d)
      = intercept ''2024-06-01T12:00:00.000Z'' ?d"
    by blast
  have n': "''success'' \<notin> set (keys [(''id'', JNum 7)])"
    by (simp add: keys_def)
  from k 1 2 3 n' show ?thesis
    by (simp only: simp_thms)
qed

section \<open>Properties of the login use case\<close>

lemma findByEmail_eq:
  "findByEmail User e w =
     (map_option User (where_email_first e (users w)), w\<lparr>calls := calls w @ [FindByEmail e]\<rparr>)"
  by (simp add: findByEmail_def Let_def split: option.split)

lemma execute_unknown:
  assumes "where_email_first (email input) (users w) = None"
  shows "execute User compare input w =
           (Inl (UnauthorizedException ''Invalid credentials''),
            w\<lparr>calls := calls w @ [FindByEmail (email input)]\<rparr>)"
  using assms by (simp add: execute_def findByEmail_eq)

lemma execute_wrong_password:
  assumes "where_email_first (email input) (users w) = Some row"
    and "\<not> compare (password input) (getprop (User row) ''password'')"
  shows "execute User compare input w =
           (Inl (UnauthorizedException ''Invalid credentials''),
            w\<lparr>calls := calls w @ [FindByEmail (email input),
                 BcryptCompare (password input) (getprop (User row) ''password'')]\<rparr>)"
  using assms by (simp add: execute_def findByEmail_eq bcrypt_compare_def)

lemma execute_valid:
  assumes "where_email_first (email input) (users w) = Some row"
    and "compare (password input) (getprop (User row) ''password'')"
  shows "execute User compare input w =
           (Inr \<lparr>user = omit ''password'' (User row), token = None\<rparr>,
            w\<lparr>calls := calls w @ [FindByEmail (email input),
                 BcryptCompare (password input) (getprop (User row) ''password'')]\<rparr>)"
  using assms by (simp add: execute_def findByEmail_eq bcrypt_compare_def)

lemma execute_success_iff:
  "fst (execute User compare input w) = Inr out \<longleftrightarrow>
     (\<exists>row. where_email_first (email input) (users w) = Some row \<and>
            compare (password input) (getprop (User row) ''password'') \<and>
            out = \<lparr>user = omit ''password'' (User row), token = None\<rparr>)"
  by (cases "where_email_first (email input) (users w)")
     (auto simp: execute_def findByEmail_eq bcrypt_compare_def)

lemma getprop_omit: "k \<noteq> k' \<Longrightarrow> getprop (omit k' fs) k = getprop fs k"
  by (induction fs) (auto simp: getprop_def omit_def)

lemma keys_omit: "k \<notin> set (keys (omit k fs))"
  by (auto simp: keys_def omit_def)

lemma login_eq:
  "login User compare loginDto w =
     (case execute User compare loginDto w of
        (Inl e, w') \<Rightarrow> (Inl e, w')
      | (Inr result, w') \<Rightarrow>
          (Inr (JObj
             [(''user'', JObj
                 [(''id'', getprop (user result) ''id''),
                  (''email'', getprop (user result) ''email''),
                  (''name'', getprop (user result) ''name''),
                  (''createdAt'', getprop (user result) ''createdAt''),
                  (''updatedAt'', getprop (user result) ''updatedAt'')]),
              (''token'', (case token result of None \<Rightarrow> JUndefined | Some t \<Rightarrow> JStr t)),
              (''message'', JStr ''Login successful'')]), w'))"
  by (cases loginDto) (simp add: login_def)

lemma seed_lookup_user:
  "where_email_first ''user@example.com'' (users seed) = Some (seed_row ''2'' ''user@example.com'' ''Test User'')"
  by (simp add: where_email_first_def seed_def seed_row_def getprop_def)

lemma seed_lookup_nobody:
  "where_email_first ''nobody@example.com'' (users seed) = None"
  by (simp add: where_email_first_def seed_def seed_row_def getprop_def)

lemma seed_lookup_upper:
  "where_email_first ''USER@Example.com'' (users seed) = None"
  by (simp add: where_email_first_def seed_def seed_row_def getprop_def)

lemma seed_password:
  "getprop (User_example (seed_row i e n)) ''password'' = JStr (hash_example ''password123'')"
  by (simp add: User_example_def seed_row_def getprop_def)

lemma compare_example_iff:
  "compare_example p (JStr (hash_example q)) \<longleftrightarrow> p = q"
  by (auto simp: compare_example_def hash_example_def)

text \<open>
  C1. A login whose email has no row in the store and a login whose email has a row but
  whose password the comparison refuses fail with the same exception, an
  \<open>UnauthorizedException\<close> with the message \<open>Invalid credentials\<close> and nothing else; the
  controller passes it on unchanged, so the two cases reach the caller as equal values.
\<close>

theorem invalid_credentials_same_error:
  assumes "where_email_first (email i1) (users w1) = None"
    and "where_email_first (email i2) (users w2) = Some row"
    and "\<not> compare (password i2) (getprop (User row) ''password'')"
  shows "fst (execute User compare i1 w1) = Inl (UnauthorizedException ''Invalid credentials'')
       \<and> fst (execute User compare i2 w2) = Inl (UnauthorizedException ''Invalid credentials'')
       \<and> fst (login User compare i1 w1) = fst (login User compare i2 w2)
       \<and> fst (login User compare i1 w1) = Inl (UnauthorizedException ''Invalid credentials'')"
  using execute_unknown [OF assms(1), of User compare]
    execute_wrong_password [OF assms(2), of compare User, OF assms(3)]
  by (simp add: login_eq)

theorem invalid_credentials_same_error_witness:
  "where_email_first (email \<lparr>email = ''nobody@example.com'', password = ''password123''\<rparr>) (users seed) = None
   \<and> where_email_first (email \<lparr>email = ''user@example.com'', password = ''letmein''\<rparr>) (users seed)
       = Some (seed_row ''2'' ''user@example.com'' ''Test User'')
   \<and> \<not> compare_example (password \<lparr>email = ''user@example.com'', password = ''letmein''\<rparr>)
         (getprop (User_example (seed_row ''2'' ''user@example.com'' ''Test User'')) ''password'')
   \<and> fst (execute User_example compare_example \<lparr>email = ''nobody@example.com'', password = ''password123''\<rparr> seed)
       = Inl (UnauthorizedException ''Invalid credentials'')
   \<and> fst (execute User_example compare_example \<lparr>email = ''user@example.com'', password = ''letmein''\<rparr> seed)
       = Inl (UnauthorizedException ''Invalid credentials'')"
proof -
  let ?i1 = "\<lparr>email = ''nobody@example.com'', password = ''password123''\<rparr>"
  let ?i2 = "\<lparr>email = ''user@example.com'', password = ''letmein''\<rparr>"
  let ?row = "seed_row ''2'' ''user@example.com'' ''Test User''"
  have a: "where_email_first (email ?i1) (users seed) = None"
    by (simp add: seed_lookup_nobody)
  have b: "where_email_first (email ?i2) (users seed) = Some ?row"
    by (simp add: seed_lookup_user)
  have c: "\<not> compare_example (password ?i2) (getprop (User_example ?row) ''password'')"
    by (simp add: seed_password compare_example_iff)
  from invalid_credentials_same_error
         [where User = User_example and compare = compare_example, OF a b c] a b c
  show ?thesis
    by simp
qed

text \<open>
  C10. When the store has no row for the email, the use case throws right after the
  lookup: the only collaborator call made is the lookup, the comparison is never called,
  and the outcome is the same \<open>Invalid credentials\<close> failure whatever the password and
  whatever the comparison function would have answered.
\<close>

theorem unknown_email_never_compares:
  assumes "where_email_first e (users w) = None"
  shows "execute User compare1 \<lparr>email = e, password = p1\<rparr> w
           = execute User compare2 \<lparr>email = e, password = p2\<rparr> w
       \<and> execute User compare1 \<lparr>email = e, password = p1\<rparr> w
           = (Inl (UnauthorizedException ''Invalid credentials''),
              w\<lparr>calls := calls w @ [FindByEmail e]\<rparr>)"
  using assms by (simp add: execute_unknown)

theorem unknown_email_never_compares_witness:
  "where_email_first ''nobody@example.com'' (users seed) = None
   \<and> execute User_example compare_example \<lparr>email = ''nobody@example.com'', password = ''password123''\<rparr> seed
       = execute User_example (\<lambda>p h. True) \<lparr>email = ''nobody@example.com'', password = ''x''\<rparr> seed
   \<and> calls (snd (execute User_example compare_example
         \<lparr>email = ''nobody@example.com'', password = ''password123''\<rparr> seed))
       = [FindByEmail ''nobody@example.com'']"
proof -
  have c: "calls seed = []"
    by (simp add: seed_def)
  note h = unknown_email_never_compares [OF seed_lookup_nobody, of User_example compare_example
      "''password123''" "\<lambda>p h. True" "''x''"]
  have "calls (snd (execute User_example compare_example
         \<lparr>email = ''nobody@example.com'', password = ''password123''\<rparr> seed))
       = [FindByEmail ''nobody@example.com'']"
    by (simp add: h [THEN conjunct2] c)
  with h [THEN conjunct1] seed_lookup_nobody show ?thesis
    by (intro conjI)
qed

text \<open>
  C7. The use case writes nothing: after any call the rows of the store are the rows
  before it, and the calls it made are one lookup, followed by at most one comparison.
  A second call with the same input therefore returns what the first returned, and
  leaves the rows as they were.
\<close>

theorem execute_no_writes:
  "users (snd (execute User compare input w)) = users w
   \<and> (\<exists>hash. calls (snd (execute User compare input w)) = calls w @ [FindByEmail (email input)]
            \<or> calls (snd (execute User compare input w))
                 = calls w @ [FindByEmail (email input), BcryptCompare (password input) hash])
   \<and> fst (execute User compare input (snd (execute User compare input w)))
       = fst (execute User compare input w)
   \<and> users (snd (execute User compare input (snd (execute User compare input w)))) = users w"
proof -
  have u: "users (snd (execute User compare input v)) = users v" for v
    by (cases "where_email_first (email input) (users v)")
       (simp_all add: execute_def findByEmail_eq bcrypt_compare_def)
  have r: "fst (execute User compare input v) = fst (execute User compare input v')"
    if "users v = users v'" for v v'
    using that by (cases "where_email_first (email input) (users v')")
       (simp_all add: execute_def findByEmail_eq bcrypt_compare_def)
  have c: "\<exists>hash. calls (snd (execute User compare input w)) = calls w @ [FindByEmail (email input)]
            \<or> calls (snd (execute User compare input w))
                 = calls w @ [FindByEmail (email input), BcryptCompare (password input) hash]"
    by (cases "where_email_first (email input) (users w)")
       (simp_all add: execute_def findByEmail_eq bcrypt_compare_def)
  from u [of w] u [of "snd (execute User compare input w)"] r [OF u [of w]] c
  show ?thesis by simp
qed

theorem execute_no_writes_witness:
  "users (snd (execute User_example compare_example \<lparr>email = ''user@example.com'', password = ''password123''\<rparr> seed))
     = users seed
   \<and> fst (execute User_example compare_example \<lparr>email = ''user@example.com'', password = ''password123''\<rparr>
        (snd (execute User_example compare_example \<lparr>email = ''user@example.com'', password = ''password123''\<rparr> seed)))
     = Inr \<lparr>user = omit ''password'' (User_example (seed_row ''2'' ''user@example.com'' ''Test User'')), token = None\<rparr>
   \<and> fst (execute User_example compare_example \<lparr>email = ''user@example.com'', password = ''password123''\<rparr> seed)
     = Inr \<lparr>user = omit ''password'' (User_example (seed_row ''2'' ''user@example.com'' ''Test User'')), token = None\<rparr>"
proof -
  let ?i = "\<lparr>email = ''user@example.com'', password = ''password123''\<rparr>"
  have ok: "execute User_example compare_example ?i seed =
     (Inr \<lparr>user = omit ''password'' (User_example (seed_row ''2'' ''user@example.com'' ''Test User'')), token = None\<rparr>,
      seed\<lparr>calls := calls seed @ [FindByEmail (email ?i),
         BcryptCompare (password ?i) (getprop (User_example (seed_row ''2'' ''user@example.com'' ''Test User'')) ''password'')]\<rparr>)"
    by (rule execute_valid) (simp_all add: seed_lookup_user seed_password compare_example_iff)
  from execute_no_writes [of User_example compare_example ?i seed] ok
  show ?thesis by (simp add: User_example_def)
qed

lemma login_valid:
  assumes "where_email_first (email loginDto) (users w) = Some row"
    and "compare (password loginDto) (getprop (User row) ''password'')"
  shows "login User compare loginDto w =
           (Inr (JObj
              [(''user'', JObj
                  [(''id'', getprop (User row) ''id''),
                   (''email'', getprop (User row) ''email''),
                   (''name'', getprop (User row) ''name''),
                   (''createdAt'', getprop (User row) ''createdAt''),
                   (''updatedAt'', getprop (User row) ''updatedAt'')]),
               (''token'', JUndefined),
               (''message'', JStr ''Login successful'')]),
            w\<lparr>calls := calls w @ [FindByEmail (email loginDto),
                 BcryptCompare (password loginDto) (getprop (User row) ''password'')]\<rparr>)"
  by (simp add: login_eq execute_valid [where User = User and compare = compare, OF assms]
      getprop_omit)

text \<open>
  C3. A successful login returns the entity of the stored row with its \<open>password\<close>
  property removed and no token; the controller answers with the five public properties
  of that user, an undefined token and the message \<open>Login successful\<close>. Neither value
  has a \<open>password\<close> property.
\<close>

theorem login_success_result:
  assumes "fst (execute User compare input w) = Inr out"
  shows "\<exists>row. where_email_first (email input) (users w) = Some row
           \<and> user out = omit ''password'' (User row)
           \<and> ''password'' \<notin> set (keys (user out))
           \<and> token out = None
           \<and> fst (login User compare input w) =
               Inr (JObj
                 [(''user'', JObj
                     [(''id'', getprop (User row) ''id''),
                      (''email'', getprop (User row) ''email''),
                      (''name'', getprop (User row) ''name''),
                      (''createdAt'', getprop (User row) ''createdAt''),
                      (''updatedAt'', getprop (User row) ''updatedAt'')]),
                  (''token'', JUndefined),
                  (''message'', JStr ''Login successful'')])"
proof -
  from assms obtain row where
    row: "where_email_first (email input) (users w) = Some row"
    and ok: "compare (password input) (getprop (User row) ''password'')"
    and out: "out = \<lparr>user = omit ''password'' (User row), token = None\<rparr>"
    by (auto simp: execute_success_iff)
  from out have "user out = omit ''password'' (User row)" and "token out = None"
    by simp_all
  moreover have "''password'' \<notin> set (keys (user out))"
    by (simp add: out keys_omit)
  moreover note login_valid [where User = User and compare = compare, OF row ok] row
  ultimately show ?thesis
    by simp
qed

theorem login_success_result_witness:
  "fst (execute User_example compare_example \<lparr>email = ''user@example.com'', password = ''password123''\<rparr> seed)
     = Inr \<lparr>user =
              [(''id'', JStr ''2''), (''email'', JStr ''user@example.com''), (''name'', JStr ''Test User''),
               (''createdAt'', JStr ''2024-01-01T00:00:00.000Z''),
               (''updatedAt'', JStr ''2024-01-01T00:00:00.000Z'')],
            token = None\<rparr>
   \<and> fst (login User_example compare_example \<lparr>email = ''user@example.com'', password = ''password123''\<rparr> seed)
     = Inr (JObj
         [(''user'', JObj
             [(''id'', JStr ''2''), (''email'', JStr ''user@example.com''), (''name'', JStr ''Test User''),
              (''createdAt'', JStr ''2024-01-01T00:00:00.000Z''),
              (''updatedAt'', JStr ''2024-01-01T00:00:00.000Z'')]),
          (''token'', JUndefined),
          (''message'', JStr ''Login successful'')])"
proof -
  let ?i = "\<lparr>email = ''user@example.com'', password = ''password123''\<rparr>"
  let ?row = "seed_row ''2'' ''user@example.com'' ''Test User''"
  let ?out = "\<lparr>user = omit ''password'' (User_example ?row), token = None\<rparr>"
  have ok: "fst (execute User_example compare_example ?i seed) = Inr ?out"
    by (subst execute_valid [where row = ?row])
       (simp_all add: seed_lookup_user seed_password compare_example_iff)
  have row: "omit ''password'' (User_example ?row) =
              [(''id'', JStr ''2''), (''email'', JStr ''user@example.com''), (''name'', JStr ''Test User''),
               (''createdAt'', JStr ''2024-01-01T00:00:00.000Z''),
               (''updatedAt'', JStr ''2024-01-01T00:00:00.000Z'')]"
    by (simp add: omit_def User_example_def seed_row_def getprop_def)
  have p: "getprop (User_example ?row) ''id'' = JStr ''2''"
    "getprop (User_example ?row) ''email'' = JStr ''user@example.com''"
    "getprop (User_example ?row) ''name'' = JStr ''Test User''"
    "getprop (User_example ?row) ''createdAt'' = JStr ''2024-01-01T00:00:00.000Z''"
    "getprop (User_example ?row) ''updatedAt'' = JStr ''2024-01-01T00:00:00.000Z''"
    by (simp_all add: getprop_def User_example_def seed_row_def)
  from login_success_result [OF ok] ok show ?thesis
    by (simp add: seed_lookup_user row p)
qed

lemma toLowerCase_example: "toLowerCase ''USER@Example.com'' = ''user@example.com''"
  by (simp add: toLowerCase_def toLowerCase_char_def char_of_def bit_Suc_0_iff)

lemma trim_example: "trim ''user@example.com'' = ''user@example.com''"
  by (simp add: trim_def isWhiteSpace_def)

text \<open>
  C2, as stated, fails. Against the seeded users, the use case called with the email
  \<open>USER@Example.com\<close> and the right password looks up \<open>USER@Example.com\<close>, finds nothing
  and throws, although the lowercased and trimmed email \<open>user@example.com\<close> is stored and
  logs in.
\<close>

theorem execute_normalizes_counterexample:
  "calls (snd (execute User_example compare_example
       \<lparr>email = ''USER@Example.com'', password = ''password123''\<rparr> seed))
     = [FindByEmail ''USER@Example.com'']
   \<and> trim (toLowerCase ''USER@Example.com'') = ''user@example.com''
   \<and> fst (execute User_example compare_example
       \<lparr>email = ''USER@Example.com'', password = ''password123''\<rparr> seed)
     = Inl (UnauthorizedException ''Invalid credentials'')
   \<and> fst (execute User_example compare_example
       \<lparr>email = trim (toLowerCase ''USER@Example.com''), password = ''password123''\<rparr> seed)
     = Inr \<lparr>user = omit ''password'' (User_example (seed_row ''2'' ''user@example.com'' ''Test User'')),
            token = None\<rparr>"
proof -
  have c: "calls seed = []"
    by (simp add: seed_def)
  have raw: "execute User_example compare_example
       \<lparr>email = ''USER@Example.com'', password = ''password123''\<rparr> seed
     = (Inl (UnauthorizedException ''Invalid credentials''),
        seed\<lparr>calls := calls seed @ [FindByEmail ''USER@Example.com'']\<rparr>)"
    using execute_unknown [where input = "\<lparr>email = ''USER@Example.com'', password = ''password123''\<rparr>"
        and w = seed and User = User_example and compare = compare_example]
    by (simp add: seed_lookup_upper)
  have norm: "execute User_example compare_example
       \<lparr>email = ''user@example.com'', password = ''password123''\<rparr> seed
     = (Inr \<lparr>user = omit ''password'' (User_example (seed_row ''2'' ''user@example.com'' ''Test User'')),
             token = None\<rparr>,
        seed\<lparr>calls := calls seed @ [FindByEmail ''user@example.com'',
          BcryptCompare ''password123''
            (getprop (User_example (seed_row ''2'' ''user@example.com'' ''Test User'')) ''password'')]\<rparr>)"
    using execute_valid [where input = "\<lparr>email = ''user@example.com'', password = ''password123''\<rparr>"
        and w = seed and User = User_example and compare = compare_example
        and row = "seed_row ''2'' ''user@example.com'' ''Test User''"]
    by (simp add: seed_lookup_user seed_password compare_example_iff)
  show ?thesis
    by (simp add: raw norm c toLowerCase_example trim_example User_example_def)
qed

text \<open>
  C2, amended. The use case looks the user up under the email exactly as it receives it:
  the first call it makes is the lookup, and the key of the lookup is the email of its
  input, neither lowercased nor trimmed.
\<close>

theorem lookup_uses_email_as_given:
  "\<exists>rest. calls (snd (execute User compare input w))
            = calls w @ FindByEmail (email input) # rest"
proof (cases "where_email_first (email input) (users w)")
  case None
  then show ?thesis
    by (simp add: execute_unknown)
next
  case (Some row)
  then show ?thesis
    by (simp add: execute_def findByEmail_eq bcrypt_compare_def)
qed

section \<open>Properties of the login schema\<close>

lemma trim_strips_both_ends:
  "trim ([CHR 0x20, CHR 0x09] @ ''a b'' @ [CHR 0x0A, CHR 0xA0]) = ''a b''"
  by (simp add: trim_def isWhiteSpace_def)

lemma trim_no_white_space:
  "s \<noteq> [] \<Longrightarrow> \<not> isWhiteSpace (hd s) \<Longrightarrow> \<not> isWhiteSpace (last s) \<Longrightarrow> trim s = s"
proof -
  assume s: "s \<noteq> []" and h: "\<not> isWhiteSpace (hd s)" and l: "\<not> isWhiteSpace (last s)"
  have keep: "dropWhile isWhiteSpace xs = xs" if "xs \<noteq> []" "\<not> isWhiteSpace (hd xs)" for xs
    using that by (cases xs) simp_all
  from s l have "dropWhile isWhiteSpace (rev s) = rev s"
    by (intro keep) (simp_all add: hd_rev)
  with keep [OF s h] show "trim s = s"
    by (simp add: trim_def)
qed

lemma password_schema_accepts:
  "password_schema (JStr pw) = Inr pw' \<longleftrightarrow> pw' = pw \<and> 6 \<le> length pw \<and> length pw \<le> 100"
  by (auto simp: password_schema_def)

lemma password_schema_too_long:
  "100 < length pw \<Longrightarrow>
   password_schema (JStr pw) = Inl [\<lparr>path = [''password''], message = ''Password is too long''\<rparr>]"
  by (simp add: password_schema_def)

lemma LoginSchema_Inr:
  assumes "LoginSchema isEmail body = Inr loginDto"
  shows "\<exists>raw pw. getprop body ''email'' = JStr raw \<and> getprop body ''password'' = JStr pw
           \<and> isEmail raw \<and> 6 \<le> length pw \<and> length pw \<le> 100
           \<and> loginDto = \<lparr>email = trim (toLowerCase raw), password = pw\<rparr>"
  using assms
  by (auto simp: LoginSchema_def email_schema_def password_schema_def Let_def issues_of_def
           split: jsval.splits if_splits sum.splits)

lemma LoginSchema_upper_case_email:
  "isEmail ''USER@Example.com'' \<Longrightarrow>
   LoginSchema isEmail [(''email'', JStr ''USER@Example.com''), (''password'', JStr ''password123'')]
     = Inr \<lparr>email = ''user@example.com'', password = ''password123''\<rparr>"
  by (simp add: LoginSchema_def email_schema_def password_schema_def getprop_def
        toLowerCase_example trim_example)

lemma LoginSchema_two_issues:
  "\<not> isEmail ''not-an-email'' \<Longrightarrow>
   LoginSchema isEmail [(''email'', JStr ''not-an-email''), (''password'', JStr ''ab'')]
     = Inl [\<lparr>path = [''email''], message = ''Must be a valid email address''\<rparr>,
            \<lparr>path = [''password''], message = ''Password must be at least 6 characters''\<rparr>]"
  by (simp add: LoginSchema_def email_schema_def password_schema_def getprop_def issues_of_def)

section \<open>Properties of the validation pipe\<close>

text \<open>
  C5. The request with the email \<open>USER@Example.com\<close> and the password \<open>password123\<close> does
  not reach the login: the installed pipe knows no property of \<open>LoginDto\<close> and refuses
  the body for its two properties. The schema that would lowercase the email
  (\<open>LoginSchema_upper_case_email\<close>) is not run.
\<close>

theorem login_request_refused_by_pipe:
  "forbidNonWhitelisted LoginDto_decorated
     [(''email'', JStr ''USER@Example.com''), (''password'', JStr ''password123'')]
   = Some (I18nValidationException [''email'', ''password''])"
  by (simp add: forbidNonWhitelisted_def LoginDto_decorated_def keys_def)

text \<open>
  C6. The body \<open>{ email: "not-an-email", password: "ab" }\<close> is refused, with two errors, but
  they are the installed pipe's: one for each property of the body, whatever its value,
  so that a body with a well-formed email and a password of the right length is refused
  with the same two. The email format and the length of the password are the schema's
  tests (\<open>LoginSchema_two_issues\<close>, \<open>password_schema_accepts\<close>), and the schema is not run.
\<close>

theorem validation_errors_come_from_pipe:
  "forbidNonWhitelisted LoginDto_decorated
     [(''email'', JStr ''not-an-email''), (''password'', JStr ''ab'')]
   = Some (I18nValidationException [''email'', ''password''])
   \<and> forbidNonWhitelisted LoginDto_decorated
     [(''email'', JStr ''user@example.com''), (''password'', JStr ''password123'')]
   = Some (I18nValidationException [''email'', ''password''])"
  by (simp add: forbidNonWhitelisted_def LoginDto_decorated_def keys_def)

end
